theory Spec2Isabelle
  imports Complex_Main "HOL-Library.Word" "HOL-Library.Multiset"
begin

text \<open>
  A verification development for the AI Humaniser: the hook \<^verbatim>\<open>useHumaniser\<close> and
  the form \<^verbatim>\<open>UrlScraperForm\<close> of the frontend, the retrieval function
  \<^verbatim>\<open>match_human_content\<close> of the database schema, and the Orchestrator of the
  backend as its specification describes it. The definitions come first, the
  properties after them.
\<close>

section \<open>JavaScript strings\<close>

text \<open>
  A JavaScript string is a sequence of UTF-16 code units; \<^verbatim>\<open>s.length\<close> is the number
  of code units, so it is the length of the list. \<open>js\<close> embeds an ASCII literal.
\<close>

type_synonym js_string = "16 word list"

definition js :: "string \<Rightarrow> js_string" where
  "js s = map (\<lambda>c. of_nat (of_char c)) s"

text \<open>
  \<^verbatim>\<open>String.prototype.trim\<close> removes leading and trailing WhiteSpace and
  LineTerminator code points (ECMA-262): TAB, LF, VT, FF, CR, SPACE, NBSP, the
  category Zs (U+1680, U+2000..U+200A, U+202F, U+205F, U+3000), LS, PS and U+FEFF.
\<close>

definition isWhiteSpace :: "16 word \<Rightarrow> bool" where
  "isWhiteSpace c \<longleftrightarrow>
     c = 0x0009 \<or> c = 0x000A \<or> c = 0x000B \<or> c = 0x000C \<or> c = 0x000D \<or>
     c = 0x0020 \<or> c = 0x00A0 \<or> c = 0x1680 \<or>
     (0x2000 \<le> c \<and> c \<le> 0x200A) \<or>
     c = 0x2028 \<or> c = 0x2029 \<or> c = 0x202F \<or> c = 0x205F \<or>
     c = 0x3000 \<or> c = 0xFEFF"

definition trim :: "js_string \<Rightarrow> js_string" where
  "trim s = rev (dropWhile isWhiteSpace (rev (dropWhile isWhiteSpace s)))"

section \<open>Types of the upward interface\<close>

datatype Mode = sales | journalist

text \<open>
  The declarations \<^verbatim>\<open>QualityMetrics\<close>, \<^verbatim>\<open>HumaniseRequest\<close> and
  \<^verbatim>\<open>HumaniseResponse\<close> of \<^verbatim>\<open>@/lib/api\<close> are imported by the hook and the
  components but are not among the source files. Floats are read as reals, counts as
  naturals.
\<close>

text \<open>
  Modelled from the spec: the declaration of \<^verbatim>\<open>QualityMetrics\<close> is missing; the
  fields are those of the data model (section 3), the ones \<^verbatim>\<open>MetricsDisplay\<close> reads.
\<close>

record QualityMetrics =
  burstiness :: real
  lexical_diversity :: real
  contraction_ratio :: real
  word_count :: nat
  sentence_count :: nat

text \<open>
  Modelled from the spec: the declaration of \<^verbatim>\<open>HumaniseRequest\<close> is missing; the
  fields are those of the request of the upward interface (section 6), the ones the
  hook writes.
\<close>

record HumaniseRequest =
  input_text :: js_string
  mode :: Mode

text \<open>
  Modelled from the spec: the declaration of \<^verbatim>\<open>HumaniseResponse\<close> is missing; the
  fields are those of the response of the upward interface (section 6), the ones
  \<^verbatim>\<open>OutputDisplay\<close> and the page read.
\<close>

record HumaniseResponse =
  output_text :: js_string
  quality_score :: real
  iterations :: nat
  mode :: Mode
  processing_time_ms :: nat
  metrics :: QualityMetrics

text \<open>
  The core names the same shapes TransformRequest and TransformResult (spec,
  section 3).
\<close>

type_synonym TransformRequest = HumaniseRequest

type_synonym TransformResult = HumaniseResponse

section \<open>Toasts\<close>

text \<open>
  A toast has a title, a description and an optional variant. A description is a
  template literal: literal pieces and interpolated numbers.
\<close>

datatype piece = Str js_string | Num nat

datatype variant = destructive

record Toast =
  title :: js_string
  description :: "piece list"
  variant :: "variant option"

section \<open>The hook \<^verbatim>\<open>useHumaniser\<close> (use-humaniser.ts)\<close>

record UseHumaniserState =
  inputText :: js_string
  mode :: Mode
  isLoading :: bool
  error :: "js_string option"
  result :: "HumaniseResponse option"

text \<open>
  What a rejected promise carries into \<^verbatim>\<open>catch (error)\<close>: an instance of
  \<^verbatim>\<open>Error\<close> with its message, or any other value.
\<close>

datatype thrown = Error js_string | NonError

text \<open>
  One run of \<^verbatim>\<open>humanise\<close>: the state after it, the toasts it raised and the
  requests it passed to \<^verbatim>\<open>humaniseText\<close>, in order.
\<close>

record HumaniseRun =
  state :: UseHumaniserState
  toasts :: "Toast list"
  requests :: "HumaniseRequest list"

definition initialState :: UseHumaniserState where
  "initialState =
     \<lparr>inputText = [], mode = sales, isLoading = False, error = None, result = None\<rparr>"

definition setInputText :: "js_string \<Rightarrow> UseHumaniserState \<Rightarrow> UseHumaniserState" where
  "setInputText text prev = prev\<lparr>inputText := text, error := None\<rparr>"

definition setMode :: "Mode \<Rightarrow> UseHumaniserState \<Rightarrow> UseHumaniserState" where
  "setMode m prev = prev\<lparr>mode := m\<rparr>"

definition reset :: "UseHumaniserState \<Rightarrow> UseHumaniserState" where
  "reset prev = initialState"

definition clearResult :: "UseHumaniserState \<Rightarrow> UseHumaniserState" where
  "clearResult prev = prev\<lparr>result := None, error := None\<rparr>"

definition validationToast :: "js_string \<Rightarrow> Toast" where
  "validationToast msg =
     \<lparr>title = js ''Validation Error'', description = [Str msg], variant = Some destructive\<rparr>"

definition successToast :: "HumaniseResponse \<Rightarrow> Toast" where
  "successToast response =
     \<lparr>title = js ''Success!'',
      description =
        [Str (js ''Text humanised successfully in ''), Num (iterations response),
         Str (js '' iteration''), Str (if iterations response > 1 then js ''s'' else [])],
      variant = None\<rparr>"

definition errorToast :: "js_string \<Rightarrow> Toast" where
  "errorToast errorMessage =
     \<lparr>title = js ''Error'', description = [Str errorMessage], variant = Some destructive\<rparr>"

text \<open>
  The part of \<^verbatim>\<open>humanise\<close> after \<^verbatim>\<open>await humaniseText(request)\<close>: the
  \<^verbatim>\<open>setState\<close> calls are functional updates, so they act on the state \<open>prev\<close>
  current when the promise settles.
\<close>

definition settle ::
  "thrown + HumaniseResponse \<Rightarrow> UseHumaniserState \<Rightarrow> UseHumaniserState \<times> Toast" where
  "settle outcome prev =
     (case outcome of
        Inr response \<Rightarrow>
          (prev\<lparr>isLoading := False, result := Some response, error := None\<rparr>,
           successToast response)
      | Inl e \<Rightarrow>
          (let errorMessage =
                 (case e of Error m \<Rightarrow> m | NonError \<Rightarrow> js ''An unexpected error occurred'')
           in (prev\<lparr>isLoading := False, error := Some errorMessage, result := None\<rparr>,
               errorToast errorMessage)))"

definition humanise ::
  "(HumaniseRequest \<Rightarrow> thrown + HumaniseResponse) \<Rightarrow> UseHumaniserState \<Rightarrow> HumaniseRun" where
  "humanise humaniseText st =
     (if trim (inputText st) = [] then
        \<lparr>state = st\<lparr>error := Some (js ''Please enter some text to humanise'')\<rparr>,
         toasts = [validationToast (js ''Please enter some text to humanise'')],
         requests = []\<rparr>
      else if length (trim (inputText st)) < 20 then
        \<lparr>state = st\<lparr>error := Some (js ''Text must be at least 20 characters long'')\<rparr>,
         toasts = [validationToast (js ''Text must be at least 20 characters long'')],
         requests = []\<rparr>
      else
        (let loading = st\<lparr>isLoading := True, error := None, result := None\<rparr>;
             request = \<lparr>input_text = inputText st, mode = UseHumaniserState.mode st\<rparr>;
             (st', t) = settle (humaniseText request) loading
         in \<lparr>state = st', toasts = [t], requests = [request]\<rparr>))"

text \<open>Sample backends and states.\<close>

definition sampleResponse :: "HumaniseRequest \<Rightarrow> HumaniseResponse" where
  "sampleResponse r =
     \<lparr>output_text = input_text r, quality_score = 4 / 5, iterations = 2,
      mode = HumaniseRequest.mode r, processing_time_ms = 3421,
      metrics = \<lparr>burstiness = 1 / 2, lexical_diversity = 3 / 4, contraction_ratio = 0,
                 word_count = 5, sentence_count = 1\<rparr>\<rparr>"

definition okBackend :: "HumaniseRequest \<Rightarrow> thrown + HumaniseResponse" where
  "okBackend r = Inr (sampleResponse r)"

definition failingBackend :: "HumaniseRequest \<Rightarrow> thrown + HumaniseResponse" where
  "failingBackend r = Inl (Error (js ''Request failed''))"

definition shortState :: UseHumaniserState where
  "shortState = initialState\<lparr>inputText := js ''hello''\<rparr>"

definition paddedState :: UseHumaniserState where
  "paddedState = initialState\<lparr>inputText := js ''  This text is long enough.  ''\<rparr>"

section \<open>The form \<^verbatim>\<open>UrlScraperForm\<close> (url-scraper-form.tsx)\<close>

text \<open>
  The request is the object literal built in \<^verbatim>\<open>handleSubmit\<close>; of the response
  (declared in \<^verbatim>\<open>@/lib/api\<close>) the fields are those the handler reads.
\<close>

record ScrapeRequest =
  url :: js_string
  content_type :: Mode
  description :: js_string

record ScrapeResponse =
  success :: bool
  message :: js_string
  word_count :: nat
  filename :: js_string

record ScrapeResult =
  success :: bool
  message :: js_string
  wordCount :: nat
  filename :: js_string

text \<open>The five \<^verbatim>\<open>useState\<close> cells of the component.\<close>

record FormState =
  url :: js_string
  contentType :: Mode
  description :: js_string
  isLoading :: bool
  result :: "ScrapeResult option"

text \<open>
  One run of \<^verbatim>\<open>handleSubmit\<close>: the cells after it, the toasts it raised and the
  requests it passed to \<^verbatim>\<open>scrapeAndIndexUrl\<close>.
\<close>

record SubmitRun =
  form :: FormState
  raised :: "Toast list"
  scrapes :: "ScrapeRequest list"

definition initialForm :: FormState where
  "initialForm =
     \<lparr>url = [], contentType = journalist, description = [], isLoading = False, result = None\<rparr>"

definition scrapedToast :: "ScrapeResponse \<Rightarrow> Toast" where
  "scrapedToast response =
     \<lparr>title = js ''Success!'',
      Toast.description =
        [Str (js ''Scraped and indexed ''), Num (ScrapeResponse.word_count response),
         Str (js '' words from URL'')],
      variant = None\<rparr>"

definition handleSubmit ::
  "(ScrapeRequest \<Rightarrow> thrown + ScrapeResponse) \<Rightarrow> FormState \<Rightarrow> SubmitRun" where
  "handleSubmit scrapeAndIndexUrl f =
     (if trim (url f) = [] then
        \<lparr>form = f, raised = [validationToast (js ''Please enter a URL'')], scrapes = []\<rparr>
      else if trim (description f) = [] \<or> length (trim (description f)) < 5 then
        \<lparr>form = f,
         raised = [validationToast (js ''Description must be at least 5 characters long'')],
         scrapes = []\<rparr>
      else
        (let loading = f\<lparr>isLoading := True, result := None\<rparr>;
             request = \<lparr>ScrapeRequest.url = trim (url f), content_type = contentType f,
                        ScrapeRequest.description = trim (description f)\<rparr>
         in case scrapeAndIndexUrl request of
              Inr response \<Rightarrow>
                \<lparr>form = loading
                   \<lparr>result := Some \<lparr>success = ScrapeResponse.success response,
                                      message = ScrapeResponse.message response,
                                      wordCount = ScrapeResponse.word_count response,
                                      filename = ScrapeResponse.filename response\<rparr>,
                    url := [], description := [], isLoading := False\<rparr>,
                 raised = [scrapedToast response],
                 scrapes = [request]\<rparr>
            | Inl e \<Rightarrow>
                (let errorMessage =
                       (case e of Error m \<Rightarrow> m
                        | NonError \<Rightarrow> js ''An unexpected error occurred'')
                 in \<lparr>form = loading
                        \<lparr>result := Some \<lparr>success = False, message = errorMessage,
                                           wordCount = 0, filename = []\<rparr>,
                         isLoading := False\<rparr>,
                      raised = [errorToast errorMessage],
                      scrapes = [request]\<rparr>)))"

definition handleReset :: "FormState \<Rightarrow> FormState" where
  "handleReset f = f\<lparr>url := [], description := [], contentType := journalist, result := None\<rparr>"

text \<open>A sample backend and sample forms.\<close>

definition scrapeOk :: "ScrapeRequest \<Rightarrow> thrown + ScrapeResponse" where
  "scrapeOk r = Inr \<lparr>ScrapeResponse.success = True, ScrapeResponse.message = js ''ok'',
                     ScrapeResponse.word_count = 120,
                     ScrapeResponse.filename = js ''page.txt''\<rparr>"

definition filledForm :: FormState where
  "filledForm = initialForm\<lparr>url := js '' https://example.org/a '',
                             description := js ''  news item ''\<rparr>"

definition blankUrlForm :: FormState where
  "blankUrlForm = initialForm\<lparr>url := js ''   '', description := js ''news item''\<rparr>"

section \<open>The retrieval function \<^verbatim>\<open>match_human_content\<close> (supabase_schema.sql)\<close>

text \<open>
  A pgvector value is a sequence of single-precision numbers, none of them NaN or
  infinite; each is read as the real it denotes. A double-precision result is a
  number, read as the real it denotes, or NaN. A nullable column or expression is an
  \<open>option\<close>, with \<open>None\<close> for NULL.
\<close>

type_synonym vector = "real list"

datatype float8 = Fin real | NaN

text \<open>
  The columns of \<^verbatim>\<open>human_content\<close> that the function reads. \<^verbatim>\<open>content\<close> and
  \<^verbatim>\<open>content_type\<close> are declared NOT NULL; \<^verbatim>\<open>topic\<close> and \<^verbatim>\<open>embedding\<close> are
  nullable.
\<close>

record human_content =
  id :: "128 word"
  content :: string
  content_type :: string
  topic :: "string option"
  embedding :: "vector option"

text \<open>The row type of \<^verbatim>\<open>RETURNS TABLE\<close>.\<close>

record match_row =
  id :: "128 word"
  content :: string
  content_type :: string
  topic :: "string option"
  similarity :: "float8 option"

datatype pg_error = DifferentVectorDimensions nat nat | NegativeLimit

text \<open>
  The operator \<^verbatim>\<open><=>\<close> belongs to the pgvector extension, not to the repository:
  it is a parameter \<open>op\<close> of the model, the double that the extension computes, in
  floating point, as the cosine distance of two vectors of one dimension. What the
  model fixes is what holds of the operator whatever it computes: it raises an error
  when the dimensions differ, and it is strict, NULL as soon as one argument is.
\<close>

type_synonym cosine_operator = "vector \<Rightarrow> vector \<Rightarrow> float8"

definition distance ::
  "cosine_operator \<Rightarrow> vector option \<Rightarrow> vector option \<Rightarrow> pg_error + float8 option" where
  "distance op a b =
     (case (a, b) of
        (Some x, Some y) \<Rightarrow>
          (if length x \<noteq> length y
           then Inl (DifferentVectorDimensions (length x) (length y))
           else Inr (Some (op x y)))
      | _ \<Rightarrow> Inr None)"

text \<open>
  \<^verbatim>\<open>1 - d\<close> in double precision: NULL stays NULL and NaN stays NaN. For a distance
  \<open>d\<close> between 0 and 2 that is itself the difference \<open>1 - s\<close> of doubles, the
  subtraction is exact.
\<close>

fun one_minus :: "float8 option \<Rightarrow> float8 option" where
  "one_minus None = None"
| "one_minus (Some NaN) = Some NaN"
| "one_minus (Some (Fin d)) = Some (Fin (1 - d))"

text \<open>
  The order of \<^verbatim>\<open>ORDER BY ... ASC\<close> on a nullable double: numbers in increasing
  order, then NaN (greater than every number), then NULL (last by default).
\<close>

fun order_le :: "float8 option \<Rightarrow> float8 option \<Rightarrow> bool" where
  "order_le (Some (Fin x)) (Some (Fin y)) = (x \<le> y)"
| "order_le (Some (Fin x)) (Some NaN) = True"
| "order_le (Some NaN) (Some (Fin y)) = False"
| "order_le (Some NaN) (Some NaN) = True"
| "order_le (Some d) None = True"
| "order_le None (Some d) = False"
| "order_le None None = True"

text \<open>
  The sort of the executor, as an insertion sort on rows paired with their sort key.
  Rows with equal keys keep the order in which the scan delivered them; SQL leaves
  their order open.
\<close>

fun insert_keyed ::
  "float8 option \<times> human_content \<Rightarrow> (float8 option \<times> human_content) list \<Rightarrow>
   (float8 option \<times> human_content) list" where
  "insert_keyed x [] = [x]"
| "insert_keyed x (y # ys) =
     (if order_le (fst x) (fst y) then x # y # ys else y # insert_keyed x ys)"

fun sort_keyed ::
  "(float8 option \<times> human_content) list \<Rightarrow> (float8 option \<times> human_content) list" where
  "sort_keyed [] = []"
| "sort_keyed (x # xs) = insert_keyed x (sort_keyed xs)"

text \<open>
  The sort key \<^verbatim>\<open>human_content.embedding <=> query_embedding\<close> of every row that
  passed the WHERE clause; the first error aborts the query.
\<close>

fun with_distance ::
  "cosine_operator \<Rightarrow> vector option \<Rightarrow> human_content list \<Rightarrow>
   pg_error + (float8 option \<times> human_content) list" where
  "with_distance op q [] = Inr []"
| "with_distance op q (r # rs) =
     (case distance op (embedding r) q of
        Inl e \<Rightarrow> Inl e
      | Inr d \<Rightarrow>
          (case with_distance op q rs of Inl e \<Rightarrow> Inl e | Inr ks \<Rightarrow> Inr ((d, r) # ks)))"

definition passes_filter :: "string option \<Rightarrow> human_content \<Rightarrow> bool" where
  "passes_filter content_type_filter r =
     (case content_type_filter of
        None \<Rightarrow> True
      | Some t \<Rightarrow> human_content.content_type r = t)"

definition select_row :: "float8 option \<times> human_content \<Rightarrow> match_row" where
  "select_row kr =
     \<lparr>id = human_content.id (snd kr),
      content = human_content.content (snd kr),
      content_type = human_content.content_type (snd kr),
      topic = human_content.topic (snd kr),
      similarity = one_minus (fst kr)\<rparr>"

text \<open>
  The query of the function body on a table given as the list of its rows in scan
  order. \<^verbatim>\<open>LIMIT\<close> is evaluated first: a negative count is an error, a count of
  zero returns no row without running the scan, and NULL means no limit. The defaults
  of the signature (\<^verbatim>\<open>match_count\<close> 5, \<^verbatim>\<open>content_type_filter\<close> NULL) apply when
  an argument is left out.
\<close>

definition match_human_content ::
  "cosine_operator \<Rightarrow> human_content list \<Rightarrow> vector option \<Rightarrow> int option \<Rightarrow> string option \<Rightarrow>
   pg_error + match_row list" where
  "match_human_content op tbl query_embedding match_count content_type_filter =
     (case match_count of
        Some k \<Rightarrow>
          (if k < 0 then Inl NegativeLimit
           else if k = 0 then Inr []
           else (case with_distance op query_embedding
                        (filter (passes_filter content_type_filter) tbl) of
                   Inl e \<Rightarrow> Inl e
                 | Inr ks \<Rightarrow> Inr (map select_row (take (nat k) (sort_keyed ks)))))
      | None \<Rightarrow>
          (case with_distance op query_embedding
                  (filter (passes_filter content_type_filter) tbl) of
             Inl e \<Rightarrow> Inl e
           | Inr ks \<Rightarrow> Inr (map select_row (sort_keyed ks))))"

definition match_human_content_default ::
  "cosine_operator \<Rightarrow> human_content list \<Rightarrow> vector option \<Rightarrow> pg_error + match_row list" where
  "match_human_content_default op tbl query_embedding =
     match_human_content op tbl query_embedding (Some 5) None"

text \<open>
  What the claims speak of. The exemplar of a table row for a query: the columns of
  the row with, as similarity, one minus the distance of its embedding to the query
  embedding (NULL when one of the two is NULL).
\<close>

definition exemplar_of :: "cosine_operator \<Rightarrow> vector option \<Rightarrow> human_content \<Rightarrow> match_row" where
  "exemplar_of op query_embedding t =
     \<lparr>id = human_content.id t,
      content = human_content.content t,
      content_type = human_content.content_type t,
      topic = human_content.topic t,
      similarity =
        (case (embedding t, query_embedding) of
           (Some x, Some y) \<Rightarrow> one_minus (Some (op x y))
         | _ \<Rightarrow> None)\<rparr>"

text \<open>
  What ``sorted by similarity, descending'' says of a row and a later row: the first
  has a similarity no smaller than the second, and a row without a number for its
  similarity has no row with a number after it (NaN comes after the numbers, NULL
  after NaN).
\<close>

fun similarity_ge :: "float8 option \<Rightarrow> float8 option \<Rightarrow> bool" where
  "similarity_ge (Some (Fin x)) (Some (Fin y)) = (y \<le> x)"
| "similarity_ge (Some (Fin x)) (Some NaN) = True"
| "similarity_ge (Some NaN) (Some (Fin y)) = False"
| "similarity_ge (Some NaN) (Some NaN) = True"
| "similarity_ge (Some d) None = True"
| "similarity_ge None (Some d) = False"
| "similarity_ge None None = True"

text \<open>The similarities that are numbers, in the order of the rows.\<close>

fun numbers :: "float8 option list \<Rightarrow> real list" where
  "numbers [] = []"
| "numbers (Some (Fin x) # ds) = x # numbers ds"
| "numbers (d # ds) = numbers ds"


text \<open>
  The stored embeddings and the query embedding have the same dimension, as the
  declared type \<^verbatim>\<open>VECTOR(1536)\<close> of the column and of the parameter says.
\<close>

definition same_dimension :: "human_content list \<Rightarrow> vector option \<Rightarrow> bool" where
  "same_dimension tbl query_embedding =
     list_all (\<lambda>r. case (embedding r, query_embedding) of
                      (Some e, Some y) \<Rightarrow> length e = length y
                    | _ \<Rightarrow> True) tbl"

text \<open>
  A sample operator: the cosine distance in exact arithmetic, one minus the cosine of
  the angle between the vectors, and NaN (the quotient \<open>0 / 0\<close>) when one of them has
  norm zero. The operator of pgvector accumulates the products in single precision;
  the two agree on vectors for which no product, sum, root or quotient is rounded,
  such as the sample vectors below.
\<close>

definition dot :: "vector \<Rightarrow> vector \<Rightarrow> real" where
  "dot a b = sum_list (map2 (*) a b)"

definition exact_cosine_distance :: cosine_operator where
  "exact_cosine_distance a b =
     (if dot a a = 0 \<or> dot b b = 0 then NaN
      else Fin (1 - dot a b / sqrt (dot a a * dot b b)))"

text \<open>
  Sample data: vectors of dimension 1536 along the first axis, and rows of both
  content types.
\<close>

definition axis :: "real \<Rightarrow> vector" where
  "axis x = x # replicate 1535 0"

definition sample_row :: "128 word \<Rightarrow> string \<Rightarrow> vector option \<Rightarrow> human_content" where
  "sample_row i t e =
     \<lparr>human_content.id = i, human_content.content = ''Look, here is the deal.'',
      human_content.content_type = t, human_content.topic = None, embedding = e\<rparr>"

definition sample_table :: "human_content list" where
  "sample_table =
     [sample_row 1 ''sales'' (Some (axis (- 2))),
      sample_row 2 ''journalist'' (Some (axis 1)),
      sample_row 3 ''sales'' (Some (axis 2)),
      sample_row 4 ''sales'' None]"


section \<open>The Orchestrator (spec, sections 3 to 7)\<close>

text \<open>
  The pipeline itself (the Orchestrator with its ExemplarStore, StyleRewriter and
  QualityScorer) is backend code that is not among the source files; the sources hold
  its callers and its documentation. The definitions of this section follow the data
  model (section 3), the component design (sections 4.2, 4.3 and 4.5), the
  configuration surface (section 6) and the error taxonomy (section 7) of the spec.
  The external calls can be cancelled and time out (section 5); a call that times out
  counts as a failed call, and cancellation is left out.
\<close>

text \<open>
  Modelled from the spec: the Exemplar of the data model (section 3), a reference
  passage with its mode, its optional topic and its similarity to the query.
\<close>

record Exemplar =
  content :: js_string
  content_type :: Mode
  topic :: "js_string option"
  similarity :: real

text \<open>
  Modelled from the spec: the IterationRecord of the data model (section 3), what one
  successful iteration leaves.
\<close>

record IterationRecord =
  iteration_index :: nat
  output_text :: js_string
  quality_score :: real
  metrics :: QualityMetrics

text \<open>
  Modelled from the spec: the configuration surface, \<open>quality_threshold\<close>
  (default 0.75) and \<open>max_iterations\<close> (default 3). The number of exemplars
  the Orchestrator asks for is left open by the spec and is a third setting here.
\<close>

record Config =
  quality_threshold :: real
  max_iterations :: nat
  exemplar_count :: nat

definition default_config :: Config where
  "default_config = \<lparr>quality_threshold = 3 / 4, max_iterations = 3, exemplar_count = 5\<rparr>"

text \<open>
  Modelled from the spec: the collaborators behind their interfaces (section 6).
  \<open>search\<close> is the vector retrieval provider, \<open>None\<close> when it is
  unreachable. \<open>curated\<close> is the built-in set of the ExemplarStore for a
  mode, never empty: its first exemplar and the others. \<open>generate\<close> is the
  generation provider, \<open>None\<close> when the call fails or times out;
  \<open>score\<close> is the QualityScorer. Both take the number of the iteration that
  calls them, since a provider may answer the same question differently the next time.
\<close>

record Collaborators =
  search :: "Mode \<Rightarrow> js_string \<Rightarrow> nat \<Rightarrow> Exemplar list option"
  curated :: "Mode \<Rightarrow> Exemplar \<times> Exemplar list"
  generate ::
    "nat \<Rightarrow> js_string \<Rightarrow> Mode \<Rightarrow> Exemplar list \<Rightarrow> IterationRecord option \<Rightarrow> js_string option"
  score :: "nat \<Rightarrow> js_string \<Rightarrow> real \<times> QualityMetrics"

text \<open>
  Modelled from the spec: the errors that reach the caller (section 7), without the
  CancellationError.
\<close>

datatype orchestrator_error = ValidationError | PipelineError

text \<open>
  Modelled from the spec: the failure of one rewrite call (sections 4.3 and 7).
\<close>

datatype generation_error = GenerationError

text \<open>
  Modelled from the spec: the terminal states of the state machine (section 4.5).
\<close>

datatype terminal_state = Accepted | Exhausted

text \<open>
  Modelled from the spec: \<open>retrieve(mode, topic_hint, k)\<close> of the ExemplarStore
  (section 4.2) delegates to the
  provider and falls back to the built-in set of the mode when the provider is
  unreachable or returns no row.
\<close>

definition retrieve ::
  "Collaborators \<Rightarrow> Mode \<Rightarrow> js_string \<Rightarrow> nat \<Rightarrow> Exemplar list" where
  "retrieve c m topic_hint k =
     (case search c m topic_hint k of
        None \<Rightarrow> fst (curated c m) # snd (curated c m)
      | Some [] \<Rightarrow> fst (curated c m) # snd (curated c m)
      | Some rows \<Rightarrow> rows)"

text \<open>
  Modelled from the spec: \<open>rewrite\<close> of the StyleRewriter (section 4.3)
  fails with a GenerationError when the provider call fails or returns empty content,
  and returns a non-empty text otherwise.
\<close>

definition rewrite ::
  "Collaborators \<Rightarrow> nat \<Rightarrow> js_string \<Rightarrow> Mode \<Rightarrow> Exemplar list \<Rightarrow> IterationRecord option \<Rightarrow>
   generation_error + js_string" where
  "rewrite c i input m exemplars fb =
     (case generate c i input m exemplars fb of
        None \<Rightarrow> Inl GenerationError
      | Some [] \<Rightarrow> Inl GenerationError
      | Some text \<Rightarrow> Inr text)"

text \<open>
  Modelled from the spec: the feedback of the loop (section 4.5, step 2a); iteration
  \<open>i\<close> is given the feedback of iteration \<open>i - 1\<close> if that
  iteration left a record.
\<close>

definition feedback :: "nat \<Rightarrow> IterationRecord list \<Rightarrow> IterationRecord option" where
  "feedback i recs =
     (if recs \<noteq> [] \<and> Suc (iteration_index (last recs)) = i then Some (last recs) else None)"

text \<open>
  Modelled from the spec: the accumulator (section 4.5 and the design notes) of the best
  record seen. A later record replaces it only with a strictly higher score, which is
  the tie-break for the earliest.
\<close>

definition better :: "IterationRecord option \<Rightarrow> IterationRecord \<Rightarrow> IterationRecord option" where
  "better best r =
     (case best of
        None \<Rightarrow> Some r
      | Some b \<Rightarrow> if quality_score b < quality_score r then Some r else Some b)"

text \<open>
  Modelled from the spec: what the loop leaves (section 4.5), the terminal state, the
  append-only sequence of records, the winning record, if there is one, and the
  iterations recorded as failed.
\<close>

record Trace =
  terminal :: terminal_state
  records :: "IterationRecord list"
  winner :: "IterationRecord option"
  failures :: "nat list"

text \<open>
  Modelled from the spec: the loop of the Orchestrator (section 4.5, step 2) over
  \<open>i = 1 \<dots> max_iterations\<close>, with \<open>n\<close> the number of
  iterations still permitted. A GenerationError is recorded as a failure; it uses up the
  iteration and leaves no IterationRecord. A success is scored and recorded; a score at
  or above the threshold ends the loop in \<open>Accepted\<close> with that record. When
  no iteration is left the loop ends in \<open>Exhausted\<close> with the best record
  seen.
\<close>

fun iterate ::
  "Collaborators \<Rightarrow> Config \<Rightarrow> TransformRequest \<Rightarrow> Exemplar list \<Rightarrow> nat \<Rightarrow> nat \<Rightarrow>
   IterationRecord list \<Rightarrow> IterationRecord option \<Rightarrow> nat list \<Rightarrow> Trace" where
  "iterate c cfg req exemplars 0 i recs best failed =
     \<lparr>terminal = Exhausted, records = recs, winner = best, failures = failed\<rparr>"
| "iterate c cfg req exemplars (Suc n) i recs best failed =
     (case rewrite c i (input_text req) (HumaniseRequest.mode req) exemplars (feedback i recs) of
        Inl GenerationError \<Rightarrow> iterate c cfg req exemplars n (Suc i) recs best (failed @ [i])
      | Inr text \<Rightarrow>
          (let (q, m) = score c i text;
               r = \<lparr>iteration_index = i, output_text = text, quality_score = q, metrics = m\<rparr>
           in if quality_threshold cfg \<le> q
              then \<lparr>terminal = Accepted, records = recs @ [r], winner = Some r,
                    failures = failed\<rparr>
              else iterate c cfg req exemplars n (Suc i) (recs @ [r]) (better best r) failed))"

text \<open>
  Modelled from the spec: the start of the Orchestrator (section 4.5, step 1); the
  exemplars are retrieved once, with the input text as the topic hint, and the loop
  starts at iteration 1.
\<close>

definition orchestrate :: "Collaborators \<Rightarrow> Config \<Rightarrow> TransformRequest \<Rightarrow> Trace" where
  "orchestrate c cfg req =
     iterate c cfg req
       (retrieve c (HumaniseRequest.mode req) (input_text req) (exemplar_count cfg))
       (max_iterations cfg) 1 [] None []"

text \<open>
  Modelled from the spec: the request as the Orchestrator serves it (sections 3, 4.5
  steps 3 and 4, and 7); a request whose text
  is empty or shorter than 20 characters is a ValidationError before anything runs; a
  run without a winning record is a PipelineError; otherwise the result is built from
  the winning record, \<open>iterations\<close> is the length of the record sequence, and
  \<open>processing_time_ms\<close> is the wall-clock time \<open>elapsed\<close>.
\<close>

definition transform ::
  "Collaborators \<Rightarrow> Config \<Rightarrow> nat \<Rightarrow> TransformRequest \<Rightarrow> orchestrator_error + TransformResult" where
  "transform c cfg elapsed req =
     (if input_text req = [] \<or> length (input_text req) < 20 then Inl ValidationError
      else (case winner (orchestrate c cfg req) of
              None \<Rightarrow> Inl PipelineError
            | Some w \<Rightarrow>
                Inr \<lparr>HumaniseResponse.output_text = IterationRecord.output_text w,
                     HumaniseResponse.quality_score = IterationRecord.quality_score w,
                     iterations = length (records (orchestrate c cfg req)),
                     HumaniseResponse.mode = HumaniseRequest.mode req,
                     processing_time_ms = elapsed,
                     HumaniseResponse.metrics = IterationRecord.metrics w\<rparr>))"

text \<open>
  The invariant of the accumulator: it is empty as long as there is no record, and
  otherwise it holds the earliest record of maximal score.
\<close>

definition earliest_best :: "IterationRecord list \<Rightarrow> IterationRecord option \<Rightarrow> bool" where
  "earliest_best recs best =
     (case best of
        None \<Rightarrow> recs = []
      | Some b \<Rightarrow>
          (\<exists>j < length recs. recs ! j = b \<and>
             (\<forall>l < length recs. IterationRecord.quality_score (recs ! l) \<le> IterationRecord.quality_score b) \<and>
             (\<forall>l < j. IterationRecord.quality_score (recs ! l) < IterationRecord.quality_score b)))"

text \<open>
  Sample collaborators: the retrieval provider is unreachable, the generation provider
  answers with a new draft in every iteration, and the scorer gives iteration
  \<open>i\<close> the \<open>i\<close>-th score of a given list.
\<close>

definition sample_exemplar :: "Mode \<Rightarrow> Exemplar" where
  "sample_exemplar m =
     \<lparr>content = js ''Look, here is the deal.'', content_type = m, topic = None,
      similarity = 1\<rparr>"

definition sample_metrics :: QualityMetrics where
  "sample_metrics =
     \<lparr>burstiness = 1 / 2, lexical_diversity = 3 / 4, contraction_ratio = 1 / 10,
      word_count = 2, sentence_count = 1\<rparr>"

definition sample_draft :: "nat \<Rightarrow> js_string" where
  "sample_draft i =
     (if i = 1 then js ''first draft'' else if i = 2 then js ''second draft''
      else js ''later draft'')"

definition sample_collaborators :: "real list \<Rightarrow> Collaborators" where
  "sample_collaborators scores =
     \<lparr>search = (\<lambda>m topic_hint k. None),
      curated = (\<lambda>m. (sample_exemplar m, [])),
      generate = (\<lambda>i input m exemplars fb. Some (sample_draft i)),
      score = (\<lambda>i out. (if 0 < i \<and> i \<le> length scores then scores ! (i - 1) else 0,
                          sample_metrics))\<rparr>"

definition silent_collaborators :: Collaborators where
  "silent_collaborators =
     \<lparr>search = (\<lambda>m topic_hint k. Some []),
      curated = (\<lambda>m. (sample_exemplar m, [])),
      generate = (\<lambda>i input m exemplars fb. if i = 2 then Some [] else None),
      score = (\<lambda>i out. (1, sample_metrics))\<rparr>"

definition strict_config :: Config where
  "strict_config = \<lparr>quality_threshold = 4 / 5, max_iterations = 3, exemplar_count = 5\<rparr>"

definition sample_request :: TransformRequest where
  "sample_request =
     \<lparr>input_text =
        js ''Furthermore, it is important to note that our product offers exceptional value.'',
      mode = sales\<rparr>"

section \<open>The response on the wire and its consumers\<close>

datatype json = JString js_string | JNumber real | JObject "(string \<times> json) list"

text \<open>The names of the fields of an object, in order, and the read of a property.\<close>

fun field_names :: "json \<Rightarrow> string list" where
  "field_names (JObject kvs) = map fst kvs"
| "field_names (JString s) = []"
| "field_names (JNumber x) = []"

fun field :: "json \<Rightarrow> string \<Rightarrow> json option" where
  "field (JObject kvs) name = map_of kvs name"
| "field (JString s) name = None"
| "field (JNumber x) name = None"

text \<open>
  The serialiser of the result is backend code that is not among the source files.
  The encoding follows the response shape of the upward interface (spec, section 6).
\<close>

text \<open>
  Modelled from the spec: the encoding of the mode, missing with the serialiser, as
  its name.
\<close>

definition encode_mode :: "Mode \<Rightarrow> json" where
  "encode_mode m = (case m of sales \<Rightarrow> JString (js ''sales'') | journalist \<Rightarrow> JString (js ''journalist''))"

text \<open>
  Modelled from the spec: the encoding of the metrics, missing with the serialiser,
  with the five fields of the response shape (section 6).
\<close>

definition encode_metrics :: "QualityMetrics \<Rightarrow> json" where
  "encode_metrics m =
     JObject
       [(''burstiness'', JNumber (burstiness m)),
        (''lexical_diversity'', JNumber (lexical_diversity m)),
        (''contraction_ratio'', JNumber (contraction_ratio m)),
        (''word_count'', JNumber (real (QualityMetrics.word_count m))),
        (''sentence_count'', JNumber (real (sentence_count m)))]"

text \<open>
  Modelled from the spec: the encoding of the result, missing with the serialiser,
  with the six fields of the response shape (section 6).
\<close>

definition encode_result :: "TransformResult \<Rightarrow> json" where
  "encode_result r =
     JObject
       [(''output_text'', JString (HumaniseResponse.output_text r)),
        (''quality_score'', JNumber (HumaniseResponse.quality_score r)),
        (''iterations'', JNumber (real (iterations r))),
        (''mode'', encode_mode (HumaniseResponse.mode r)),
        (''processing_time_ms'', JNumber (real (processing_time_ms r))),
        (''metrics'', encode_metrics (HumaniseResponse.metrics r))]"

text \<open>
  The properties the components read: \<^verbatim>\<open>OutputDisplay\<close> reads \<^verbatim>\<open>result.output_text\<close>,
  \<^verbatim>\<open>result.quality_score\<close>, \<^verbatim>\<open>result.iterations\<close>, \<^verbatim>\<open>result.processing_time_ms\<close>
  and \<^verbatim>\<open>result.mode\<close>; the page reads \<^verbatim>\<open>result.metrics\<close> and
  \<^verbatim>\<open>result.quality_score\<close> for \<^verbatim>\<open>MetricsDisplay\<close>, which reads the five
  properties of \<^verbatim>\<open>metrics\<close>.
\<close>

definition OutputDisplay_reads :: "string list" where
  "OutputDisplay_reads =
     [''output_text'', ''quality_score'', ''iterations'', ''processing_time_ms'', ''mode'']"

definition Home_reads :: "string list" where
  "Home_reads = [''metrics'', ''quality_score'']"

definition MetricsDisplay_reads :: "string list" where
  "MetricsDisplay_reads =
     [''burstiness'', ''lexical_diversity'', ''contraction_ratio'', ''word_count'',
      ''sentence_count'']"

section \<open>Properties of the hook\<close>

lemma length_dropWhile_le_any: "length (dropWhile P xs) \<le> length xs"
  by (induction xs) auto

lemma length_trim_le: "length (trim s) \<le> length s"
proof -
  have "length (trim s) \<le> length (dropWhile isWhiteSpace s)"
    unfolding trim_def using length_dropWhile_le_any [of isWhiteSpace "rev (dropWhile isWhiteSpace s)"]
    by simp
  also have "\<dots> \<le> length s"
    by (rule length_dropWhile_le_any)
  finally show ?thesis .
qed


text \<open>
  C1. When the input text is empty or has fewer than 20 characters, \<^verbatim>\<open>humanise\<close>
  stops in its validation: no request is passed to \<^verbatim>\<open>humaniseText\<close> (so nothing
  behind it is invoked), the caller sees the message in \<open>error\<close>, and the only toast
  is titled ``Validation Error''. Nothing else of the state changes.
\<close>

theorem humanise_short_input_rejected:
  assumes "length (inputText st) < 20"
  shows "requests (humanise humaniseText st) = [] \<and>
         state (humanise humaniseText st) =
           st\<lparr>error := Some (if trim (inputText st) = []
                              then js ''Please enter some text to humanise''
                              else js ''Text must be at least 20 characters long'')\<rparr> \<and>
         toasts (humanise humaniseText st) =
           [validationToast (if trim (inputText st) = []
                             then js ''Please enter some text to humanise''
                             else js ''Text must be at least 20 characters long'')] \<and>
         map title (toasts (humanise humaniseText st)) = [js ''Validation Error'']"
proof -
  have "length (trim (inputText st)) < 20"
    using assms length_trim_le [of "inputText st"] by simp
  then show ?thesis
    by (simp add: humanise_def validationToast_def)
qed

theorem humanise_short_input_rejected_witness:
  "length (inputText shortState) < 20 \<and>
   requests (humanise okBackend shortState) = [] \<and>
   error (state (humanise okBackend shortState)) =
     Some (js ''Text must be at least 20 characters long'') \<and>
   map title (toasts (humanise okBackend shortState)) = [js ''Validation Error'']"
proof -
  have short: "length (inputText shortState) < 20"
    by (simp add: shortState_def initialState_def js_def)
  have blank: "trim (inputText shortState) \<noteq> []"
    by (simp add: shortState_def initialState_def js_def trim_def isWhiteSpace_def)
  show ?thesis
    using short blank humanise_short_input_rejected [OF short, of okBackend]
    by (simp add: validationToast_def)
qed

text \<open>
  C8. \<^verbatim>\<open>humanise\<close> sends a request exactly when the trimmed input text has at least
  20 characters, and the request carries the input text as typed, not trimmed: every
  request sent has a payload whose trimmed length, and so whose raw length, is at
  least 20.
\<close>

theorem humanise_requests_trimmed_length:
  "requests (humanise humaniseText st) =
     (if 20 \<le> length (trim (inputText st))
      then [\<lparr>input_text = inputText st, mode = UseHumaniserState.mode st\<rparr>] else []) \<and>
   (\<forall>r \<in> set (requests (humanise humaniseText st)).
      input_text r = inputText st \<and> 20 \<le> length (trim (input_text r)) \<and>
      20 \<le> length (input_text r))"
proof -
  have "20 \<le> length (trim (inputText st)) \<Longrightarrow> 20 \<le> length (inputText st)"
    using length_trim_le [of "inputText st"] by simp
  then show ?thesis
    by (auto simp: humanise_def Let_def split: prod.splits)
qed

theorem humanise_requests_trimmed_length_witness:
  "requests (humanise okBackend paddedState) =
     [\<lparr>input_text = inputText paddedState, mode = sales\<rparr>] \<and>
   length (trim (inputText paddedState)) = 25 \<and>
   length (inputText paddedState) = 29 \<and>
   requests (humanise okBackend shortState) = []"
proof -
  have padded: "length (trim (inputText paddedState)) = 25"
    by (simp add: paddedState_def initialState_def js_def trim_def isWhiteSpace_def)
  have raw: "length (inputText paddedState) = 29"
    by (simp add: paddedState_def initialState_def js_def)
  have short: "length (trim (inputText shortState)) = 5"
    by (simp add: shortState_def initialState_def js_def trim_def isWhiteSpace_def)
  have mode: "UseHumaniserState.mode paddedState = sales"
    by (simp add: paddedState_def initialState_def)
  have sent: "requests (humanise okBackend paddedState) =
      [\<lparr>input_text = inputText paddedState, mode = sales\<rparr>]"
    using humanise_requests_trimmed_length [of okBackend paddedState, THEN conjunct1]
    by (simp only: padded mode) simp
  have unsent: "requests (humanise okBackend shortState) = []"
    using humanise_requests_trimmed_length [of okBackend shortState, THEN conjunct1]
    by (simp only: short) simp
  from sent padded raw unsent show ?thesis
    by blast
qed

text \<open>
  C9. When the input passes validation and the request settles, the state holds either
  the response in \<open>result\<close> with \<open>error\<close> null (the promise was fulfilled) or a
  message in \<open>error\<close> with \<open>result\<close> null (it was rejected): exactly one of the two
  is non-null. The same holds for the updates after the \<^verbatim>\<open>await\<close> applied to any
  state \<open>prev\<close>, since they set both fields.
\<close>

theorem humanise_result_xor_error:
  assumes "20 \<le> length (trim (inputText st))"
  shows "(case humaniseText \<lparr>input_text = inputText st, mode = UseHumaniserState.mode st\<rparr> of
            Inr response \<Rightarrow>
              UseHumaniserState.result (state (humanise humaniseText st)) = Some response \<and>
              error (state (humanise humaniseText st)) = None
          | Inl e \<Rightarrow>
              UseHumaniserState.result (state (humanise humaniseText st)) = None \<and>
              error (state (humanise humaniseText st)) \<noteq> None) \<and>
         ((UseHumaniserState.result (state (humanise humaniseText st)) = None) \<noteq>
          (error (state (humanise humaniseText st)) = None)) \<and>
         ((UseHumaniserState.result (fst (settle outcome prev)) = None) \<noteq>
          (error (fst (settle outcome prev)) = None))"
  using assms
  by (auto simp: humanise_def settle_def Let_def split: prod.splits sum.splits)

theorem humanise_result_xor_error_witness:
  "20 \<le> length (trim (inputText paddedState)) \<and>
   UseHumaniserState.result (state (humanise okBackend paddedState)) =
     Some (sampleResponse \<lparr>input_text = inputText paddedState, mode = UseHumaniserState.mode paddedState\<rparr>) \<and>
   error (state (humanise okBackend paddedState)) = None \<and>
   UseHumaniserState.result (state (humanise failingBackend paddedState)) = None \<and>
   error (state (humanise failingBackend paddedState)) \<noteq> None"
proof -
  have padded: "20 \<le> length (trim (inputText paddedState))"
    by (simp add: paddedState_def initialState_def js_def trim_def isWhiteSpace_def)
  have ok: "UseHumaniserState.result (state (humanise okBackend paddedState)) =
      Some (sampleResponse \<lparr>input_text = inputText paddedState, mode = UseHumaniserState.mode paddedState\<rparr>) \<and>
    error (state (humanise okBackend paddedState)) = None"
    using humanise_result_xor_error [OF padded, of okBackend]
    unfolding okBackend_def by simp
  have failing: "UseHumaniserState.result (state (humanise failingBackend paddedState)) = None \<and>
    error (state (humanise failingBackend paddedState)) \<noteq> None"
    using humanise_result_xor_error [OF padded, of failingBackend]
    unfolding failingBackend_def by simp
  from padded ok failing show ?thesis
    by blast
qed

section \<open>Properties of the form\<close>

text \<open>
  C10. \<^verbatim>\<open>handleSubmit\<close> sends a request exactly when the trimmed URL is not empty
  and the trimmed description has at least 5 characters; the request carries the
  trimmed URL and the trimmed description. When the validation fails, no request is
  sent and the cells of the form keep their values (only a toast is raised).
\<close>

theorem handleSubmit_validated:
  "scrapes (handleSubmit scrapeAndIndexUrl f) =
     (if trim (FormState.url f) \<noteq> [] \<and> 5 \<le> length (trim (FormState.description f))
      then [\<lparr>ScrapeRequest.url = trim (FormState.url f), content_type = contentType f,
              ScrapeRequest.description = trim (FormState.description f)\<rparr>]
      else []) \<and>
   (\<not> (trim (FormState.url f) \<noteq> [] \<and> 5 \<le> length (trim (FormState.description f))) \<longrightarrow>
      form (handleSubmit scrapeAndIndexUrl f) = f \<and>
      scrapes (handleSubmit scrapeAndIndexUrl f) = [])"
  by (auto simp: handleSubmit_def Let_def split: sum.splits)

theorem handleSubmit_validated_witness:
  "scrapes (handleSubmit scrapeOk filledForm) =
     [\<lparr>ScrapeRequest.url = js ''https://example.org/a'', content_type = journalist,
       ScrapeRequest.description = js ''news item''\<rparr>] \<and>
   form (handleSubmit scrapeOk blankUrlForm) = blankUrlForm \<and>
   scrapes (handleSubmit scrapeOk blankUrlForm) = []"
proof -
  have u: "trim (FormState.url filledForm) = js ''https://example.org/a''"
    by (simp add: filledForm_def initialForm_def js_def trim_def isWhiteSpace_def)
  have d: "trim (FormState.description filledForm) = js ''news item''"
    by (simp add: filledForm_def initialForm_def js_def trim_def isWhiteSpace_def)
  have c: "contentType filledForm = journalist"
    by (simp add: filledForm_def initialForm_def)
  have b: "trim (FormState.url blankUrlForm) = []"
    by (simp add: blankUrlForm_def initialForm_def js_def trim_def isWhiteSpace_def)
  have sent: "scrapes (handleSubmit scrapeOk filledForm) =
     [\<lparr>ScrapeRequest.url = js ''https://example.org/a'', content_type = journalist,
       ScrapeRequest.description = js ''news item''\<rparr>]"
    using handleSubmit_validated [of scrapeOk filledForm, THEN conjunct1]
    by (simp only: u d c) (simp add: js_def)
  have kept: "form (handleSubmit scrapeOk blankUrlForm) = blankUrlForm \<and>
      scrapes (handleSubmit scrapeOk blankUrlForm) = []"
    using handleSubmit_validated [of scrapeOk blankUrlForm, THEN conjunct2]
    by (simp only: b) simp
  from sent kept show ?thesis
    by blast
qed

section \<open>Properties of the retrieval function\<close>

lemma order_le_total: "\<not> order_le a b \<Longrightarrow> order_le b a"
  by (induction a b rule: order_le.induct) auto

lemma order_le_trans: "order_le a b \<Longrightarrow> order_le b c \<Longrightarrow> order_le a c"
proof (induction a b rule: order_le.induct)
  case (1 x y)
  then show ?case by (cases c rule: one_minus.cases) auto
next
  case (2 x)
  then show ?case by (cases c rule: one_minus.cases) auto
next
  case (4)
  then show ?case by (cases c rule: one_minus.cases) auto
next
  case (5 d)
  then show ?case by (cases c; cases d) auto
qed auto

lemma set_insert_keyed: "set (insert_keyed x ys) = insert x (set ys)"
  by (induction ys) auto

lemma set_sort_keyed: "set (sort_keyed ks) = set ks"
  by (induction ks) (auto simp: set_insert_keyed)

lemma length_insert_keyed: "length (insert_keyed x ys) = Suc (length ys)"
  by (induction ys) auto

lemma length_sort_keyed: "length (sort_keyed ks) = length ks"
  by (induction ks) (auto simp: length_insert_keyed)

lemma sorted_insert_keyed:
  "sorted_wrt (\<lambda>a b. order_le (fst a) (fst b)) ys \<Longrightarrow>
   sorted_wrt (\<lambda>a b. order_le (fst a) (fst b)) (insert_keyed x ys)"
proof (induction ys)
  case Nil
  then show ?case by simp
next
  case (Cons y ys)
  show ?case
  proof (cases "order_le (fst x) (fst y)")
    case True
    with Cons.prems show ?thesis
      by (auto intro: order_le_trans)
  next
    case False
    then have "order_le (fst y) (fst x)"
      by (rule order_le_total)
    with False Cons show ?thesis
      by (auto simp: set_insert_keyed)
  qed
qed

lemma sorted_sort_keyed: "sorted_wrt (\<lambda>a b. order_le (fst a) (fst b)) (sort_keyed ks)"
  by (induction ks) (auto intro: sorted_insert_keyed)

lemma mset_insert_keyed: "mset (insert_keyed x ys) = add_mset x (mset ys)"
  by (induction ys) auto

lemma mset_sort_keyed: "mset (sort_keyed ks) = mset ks"
  by (induction ks) (auto simp: mset_insert_keyed)

lemma with_distance_rows:
  "with_distance op q rs = Inr ks \<Longrightarrow> map snd ks = rs"
  by (induction rs arbitrary: ks) (auto split: sum.splits)

lemma with_distance_keys:
  "with_distance op q rs = Inr ks \<Longrightarrow> (d, r) \<in> set ks \<Longrightarrow>
   distance op (embedding r) q = Inr d"
  by (induction rs arbitrary: ks) (auto split: sum.splits)

lemma similarity_ge_one_minus_None: "similarity_ge (one_minus a) None"
  by (cases a rule: one_minus.cases) auto

lemma order_le_similarity_ge: "order_le a b \<Longrightarrow> similarity_ge (one_minus a) (one_minus b)"
  by (induction a b rule: order_le.induct) (auto simp: similarity_ge_one_minus_None)

lemma sorted_numbers:
  "sorted_wrt similarity_ge ds \<Longrightarrow> sorted_wrt (\<ge>) (numbers ds)"
proof (induction ds rule: numbers.induct)
  case 1
  then show ?case by simp
next
  case (2 x ds)
  have "y \<in> set (numbers ds) \<Longrightarrow> Some (Fin y) \<in> set ds" for y
    by (induction ds rule: numbers.induct) auto
  with 2 show ?case
    by fastforce
qed auto


lemma sorted_select:
  "sorted_wrt (\<lambda>a b. order_le (fst a) (fst b)) ks \<Longrightarrow>
   sorted_wrt similarity_ge (map match_row.similarity (map select_row ks))"
  by (induction ks) (auto simp: select_row_def order_le_similarity_ge)

lemma sorted_take_keyed:
  "sorted_wrt (\<lambda>a b. order_le (fst a) (fst b)) (take n (sort_keyed ks))"
  using sorted_sort_keyed [of ks] by (rule sorted_wrt_take)

text \<open>
  The row that the SELECT list makes of a keyed row is the exemplar of the table row.
\<close>

lemma select_row_exemplar:
  assumes "with_distance op q fs = Inr ks" and "kr \<in> set ks"
  shows "select_row kr = exemplar_of op q (snd kr)"
proof -
  from assms have "distance op (embedding (snd kr)) q = Inr (fst kr)"
    using with_distance_keys [of op q fs ks "fst kr" "snd kr"] by simp
  then have "one_minus (fst kr) =
      (case (embedding (snd kr), q) of
         (Some x, Some y) \<Rightarrow> one_minus (Some (op x y))
       | _ \<Rightarrow> None)"
    by (auto simp: distance_def split: option.splits if_splits)
  then show ?thesis
    by (simp add: select_row_def exemplar_of_def)
qed

lemma map_select_row:
  assumes "with_distance op q fs = Inr ks"
  shows "map select_row ks = map (exemplar_of op q) fs"
proof -
  have "map select_row ks = map (\<lambda>kr. exemplar_of op q (snd kr)) ks"
    using select_row_exemplar [OF assms] by (intro map_cong) simp_all
  also have "\<dots> = map (exemplar_of op q) (map snd ks)"
    by simp
  finally show ?thesis
    by (simp add: with_distance_rows [OF assms])
qed

lemma sorted_take_drop:
  assumes "sorted_wrt P xs" and "a \<in> set (take n xs)" and "b \<in> set (drop n xs)"
  shows "P a b"
proof -
  have "sorted_wrt P (take n xs @ drop n xs)"
    using assms(1) by simp
  with assms(2,3) show ?thesis
    unfolding sorted_wrt_append by blast
qed

lemma mset_map_take: "mset (map f (take n xs)) \<subseteq># mset (map f xs)"
proof -
  have "mset (map f xs) = mset (map f (take n xs)) + mset (map f (drop n xs))"
    by (metis append_take_drop_id map_append mset_append)
  then show ?thesis
    by simp
qed

text \<open>
  The first \<open>n\<close> rows of the sorted scan: their number, where they come from, their
  order, and that no row left out is more similar than a row returned.
\<close>

lemma first_rows:
  assumes "with_distance op q fs = Inr ks"
  shows "length (map select_row (take n (sort_keyed ks))) = min n (length fs)"
    and "mset (map select_row (take n (sort_keyed ks))) \<subseteq># mset (map (exemplar_of op q) fs)"
    and "sorted_wrt similarity_ge
           (map match_row.similarity (map select_row (take n (sort_keyed ks))))"
    and "t \<in> set fs \<Longrightarrow>
           exemplar_of op q t \<in> set (map select_row (take n (sort_keyed ks))) \<or>
           (\<forall>r \<in> set (map select_row (take n (sort_keyed ks))).
              similarity_ge (match_row.similarity r)
                (match_row.similarity (exemplar_of op q t)))"
proof -
  have len: "length ks = length fs"
    using with_distance_rows [OF assms] by (metis length_map)
  show "length (map select_row (take n (sort_keyed ks))) = min n (length fs)"
    by (simp add: length_sort_keyed len min.commute)
  have "mset (map select_row (sort_keyed ks)) = mset (map select_row ks)"
    using mset_sort_keyed [of ks] by (metis mset_map)
  then have "mset (map select_row (sort_keyed ks)) = mset (map (exemplar_of op q) fs)"
    by (simp add: map_select_row [OF assms])
  then show "mset (map select_row (take n (sort_keyed ks))) \<subseteq># mset (map (exemplar_of op q) fs)"
    using mset_map_take [of select_row n "sort_keyed ks"] by simp
  show "sorted_wrt similarity_ge
      (map match_row.similarity (map select_row (take n (sort_keyed ks))))"
    by (rule sorted_select) (rule sorted_take_keyed)
  show "exemplar_of op q t \<in> set (map select_row (take n (sort_keyed ks))) \<or>
      (\<forall>r \<in> set (map select_row (take n (sort_keyed ks))).
         similarity_ge (match_row.similarity r) (match_row.similarity (exemplar_of op q t)))"
    if "t \<in> set fs"
  proof -
    from that have "t \<in> set (map snd ks)"
      by (simp add: with_distance_rows [OF assms])
    then obtain kr where kr: "kr \<in> set ks" "snd kr = t"
      by auto
    then have ex: "select_row kr = exemplar_of op q t"
      using select_row_exemplar [OF assms] by auto
    have "set (sort_keyed ks) = set (take n (sort_keyed ks)) \<union> set (drop n (sort_keyed ks))"
      by (metis append_take_drop_id set_append)
    with kr(1) consider (taken) "kr \<in> set (take n (sort_keyed ks))"
      | (dropped) "kr \<in> set (drop n (sort_keyed ks))"
      by (auto simp: set_sort_keyed)
    then show ?thesis
    proof cases
      case taken
      then have "select_row kr \<in> set (map select_row (take n (sort_keyed ks)))"
        by simp
      with ex show ?thesis
        by simp
    next
      case dropped
      have "similarity_ge (match_row.similarity (select_row a))
          (match_row.similarity (exemplar_of op q t))"
        if "a \<in> set (take n (sort_keyed ks))" for a
      proof -
        have "order_le (fst a) (fst kr)"
          using sorted_take_drop [OF sorted_sort_keyed that dropped] .
        then have "similarity_ge (one_minus (fst a)) (one_minus (fst kr))"
          by (rule order_le_similarity_ge)
        then show ?thesis
          by (simp add: ex [symmetric] select_row_def)
      qed
      then show ?thesis
        by auto
    qed
  qed
qed

lemma with_distance_returns:
  "same_dimension rs q \<Longrightarrow> \<exists>ks. with_distance op q rs = Inr ks"
proof (induction rs)
  case Nil
  then show ?case by simp
next
  case (Cons r rs)
  then obtain ks where ks: "with_distance op q rs = Inr ks"
    by (auto simp: same_dimension_def)
  from Cons.prems have "\<exists>d. distance op (embedding r) q = Inr d"
    by (auto simp: same_dimension_def distance_def split: option.splits)
  with ks show ?case
    by auto
qed

lemma same_dimension_filter: "same_dimension tbl q \<Longrightarrow> same_dimension (filter P tbl) q"
  by (induction tbl) (auto simp: same_dimension_def)

lemma match_human_content_returns:
  assumes "0 \<le> k" "same_dimension tbl q"
  shows "\<exists>rows. match_human_content op tbl q (Some k) f = Inr rows"
proof -
  from with_distance_returns [OF same_dimension_filter [OF assms(2)]]
  obtain ks where "with_distance op q (filter (passes_filter f) tbl) = Inr ks"
    by blast
  with assms(1) show ?thesis
    by (simp add: match_human_content_def)
qed

lemma passes_filter_Some: "passes_filter (Some m) = (\<lambda>t. human_content.content_type t = m)"
  by (intro ext) (simp add: passes_filter_def)

lemma dot_Cons: "dot (x # xs) (y # ys) = x * y + dot xs ys"
  by (simp add: dot_def)

lemma dot_replicate_zero: "dot (replicate n 0) (replicate n 0) = 0"
  by (induction n) (simp_all add: dot_def)

lemma dot_axis: "dot (axis x) (axis y) = x * y"
  by (simp add: axis_def dot_Cons dot_replicate_zero)

lemma length_axis: "length (axis x) = 1536"
  by (simp add: axis_def)

lemma exact_cosine_distance_axis:
  "exact_cosine_distance (axis x) (axis y) =
     (if x = 0 \<or> y = 0 then NaN else Fin (1 - x * y / (\<bar>x\<bar> * \<bar>y\<bar>)))"
proof -
  have "sqrt (x * x * (y * y)) = \<bar>x\<bar> * \<bar>y\<bar>"
    by (simp add: real_sqrt_mult)
  then show ?thesis
    by (simp add: exact_cosine_distance_def dot_axis)
qed

lemma sample_same_dimension: "same_dimension sample_table (Some (axis 1))"
  by (simp add: same_dimension_def sample_table_def sample_row_def length_axis)

lemma sample_sales:
  "match_human_content exact_cosine_distance sample_table (Some (axis 1)) (Some 2)
     (Some ''sales'') =
     Inr [\<lparr>match_row.id = 3, match_row.content = ''Look, here is the deal.'',
            match_row.content_type = ''sales'',
            match_row.topic = None, match_row.similarity = Some (Fin 1)\<rparr>,
          \<lparr>match_row.id = 1, match_row.content = ''Look, here is the deal.'',
            match_row.content_type = ''sales'',
            match_row.topic = None, match_row.similarity = Some (Fin (- 1))\<rparr>]"
  by (simp add: match_human_content_def sample_table_def sample_row_def passes_filter_def
      distance_def length_axis exact_cosine_distance_axis select_row_def)

lemma sample_sales_all:
  "match_human_content exact_cosine_distance sample_table (Some (axis 1)) (Some 3)
     (Some ''sales'') =
     Inr [\<lparr>match_row.id = 3, match_row.content = ''Look, here is the deal.'',
            match_row.content_type = ''sales'',
            match_row.topic = None, match_row.similarity = Some (Fin 1)\<rparr>,
          \<lparr>match_row.id = 1, match_row.content = ''Look, here is the deal.'',
            match_row.content_type = ''sales'',
            match_row.topic = None, match_row.similarity = Some (Fin (- 1))\<rparr>,
          \<lparr>match_row.id = 4, match_row.content = ''Look, here is the deal.'',
            match_row.content_type = ''sales'',
            match_row.topic = None, match_row.similarity = None\<rparr>]"
  by (simp add: match_human_content_def sample_table_def sample_row_def passes_filter_def
      distance_def length_axis exact_cosine_distance_axis select_row_def)

text \<open>
  C2. A call of \<^verbatim>\<open>match_human_content\<close> with a count \<open>k\<close> that is not negative
  and a content type \<open>m\<close> returns rows whenever the stored embeddings have the
  dimension of the query embedding. The rows it returns are the \<open>k\<close> most similar
  exemplars of the table rows of content type \<open>m\<close>, or all of them when there are
  fewer: each returned row is the exemplar of such a table row, with one minus the
  distance of its embedding to the query embedding as similarity, and no exemplar is
  returned more often than the table has it; every exemplar left out is no more
  similar than every row returned; and the rows come in descending order of
  similarity, every row having a similarity no smaller than the rows after it, rows
  whose similarity is not a number (NaN, or NULL for a missing embedding) being the
  last. In particular the similarities that are numbers decrease along the result.
\<close>

theorem match_human_content_contract:
  "(0 \<le> k \<and> same_dimension tbl q \<longrightarrow>
      (\<exists>rows. match_human_content op tbl q (Some k) (Some m) = Inr rows)) \<and>
   (\<forall>rows. match_human_content op tbl q (Some k) (Some m) = Inr rows \<longrightarrow>
      0 \<le> k \<and> int (length rows) \<le> k \<and>
      length rows =
        min (nat k) (length (filter (\<lambda>t. human_content.content_type t = m) tbl)) \<and>
      (\<forall>r \<in> set rows. match_row.content_type r = m) \<and>
      mset rows \<subseteq>#
        mset (map (exemplar_of op q) (filter (\<lambda>t. human_content.content_type t = m) tbl)) \<and>
      sorted_wrt similarity_ge (map match_row.similarity rows) \<and>
      sorted_wrt (\<ge>) (numbers (map match_row.similarity rows)) \<and>
      (\<forall>t \<in> set tbl. human_content.content_type t = m \<longrightarrow>
         exemplar_of op q t \<in> set rows \<or>
         (\<forall>r \<in> set rows.
            similarity_ge (match_row.similarity r)
              (match_row.similarity (exemplar_of op q t)))))"
proof (intro conjI impI allI)
  assume "0 \<le> k \<and> same_dimension tbl q"
  then show "\<exists>rows. match_human_content op tbl q (Some k) (Some m) = Inr rows"
    by (auto intro: match_human_content_returns)
next
  fix rows
  let ?fs = "filter (\<lambda>t. human_content.content_type t = m) tbl"
  assume run: "match_human_content op tbl q (Some k) (Some m) = Inr rows"
  then show nonneg: "0 \<le> k"
    by (auto simp: match_human_content_def split: if_splits)
  have facts: "length rows = min (nat k) (length ?fs) \<and>
      mset rows \<subseteq># mset (map (exemplar_of op q) ?fs) \<and>
      sorted_wrt similarity_ge (map match_row.similarity rows) \<and>
      (\<forall>t \<in> set ?fs. exemplar_of op q t \<in> set rows \<or>
         (\<forall>r \<in> set rows.
            similarity_ge (match_row.similarity r)
              (match_row.similarity (exemplar_of op q t))))"
  proof (cases "k = 0")
    case True
    with run have "rows = []"
      by (simp add: match_human_content_def)
    with True show ?thesis
      by simp
  next
    case False
    with run nonneg obtain ks where ks: "with_distance op q ?fs = Inr ks"
      and rows: "rows = map select_row (take (nat k) (sort_keyed ks))"
      by (auto simp: match_human_content_def passes_filter_Some split: sum.splits)
    from first_rows [OF ks, where n = "nat k"] show ?thesis
      unfolding rows by blast
  qed
  then show "length rows = min (nat k) (length ?fs)"
    and "mset rows \<subseteq># mset (map (exemplar_of op q) ?fs)"
    and sorted: "sorted_wrt similarity_ge (map match_row.similarity rows)"
    by blast+
  from facts nonneg show "int (length rows) \<le> k"
    by simp
  from sorted show "sorted_wrt (\<ge>) (numbers (map match_row.similarity rows))"
    by (rule sorted_numbers)
  from facts have "set_mset (mset rows) \<subseteq> set_mset (mset (map (exemplar_of op q) ?fs))"
    by (intro set_mset_mono) blast
  then show "\<forall>r \<in> set rows. match_row.content_type r = m"
    by (auto simp: exemplar_of_def)
  from facts show "\<forall>t \<in> set tbl. human_content.content_type t = m \<longrightarrow>
      exemplar_of op q t \<in> set rows \<or>
      (\<forall>r \<in> set rows.
         similarity_ge (match_row.similarity r) (match_row.similarity (exemplar_of op q t)))"
    by simp
qed

lemma sample_exemplars:
  "map (exemplar_of exact_cosine_distance (Some (axis 1)))
     (filter (\<lambda>t. human_content.content_type t = ''sales'') sample_table) =
     [\<lparr>match_row.id = 1, match_row.content = ''Look, here is the deal.'',
        match_row.content_type = ''sales'',
        match_row.topic = None, match_row.similarity = Some (Fin (- 1))\<rparr>,
      \<lparr>match_row.id = 3, match_row.content = ''Look, here is the deal.'',
        match_row.content_type = ''sales'',
        match_row.topic = None, match_row.similarity = Some (Fin 1)\<rparr>,
      \<lparr>match_row.id = 4, match_row.content = ''Look, here is the deal.'',
        match_row.content_type = ''sales'',
        match_row.topic = None, match_row.similarity = None\<rparr>]"
  by (simp add: sample_table_def sample_row_def exemplar_of_def exact_cosine_distance_axis)

theorem match_human_content_contract_witness:
  "same_dimension sample_table (Some (axis 1)) \<and>
   match_human_content exact_cosine_distance sample_table (Some (axis 1)) (Some 2)
     (Some ''sales'') =
     Inr [\<lparr>match_row.id = 3, match_row.content = ''Look, here is the deal.'',
            match_row.content_type = ''sales'',
            match_row.topic = None, match_row.similarity = Some (Fin 1)\<rparr>,
          \<lparr>match_row.id = 1, match_row.content = ''Look, here is the deal.'',
            match_row.content_type = ''sales'',
            match_row.topic = None, match_row.similarity = Some (Fin (- 1))\<rparr>] \<and>
   map (exemplar_of exact_cosine_distance (Some (axis 1)))
     (filter (\<lambda>t. human_content.content_type t = ''sales'') sample_table) =
     [\<lparr>match_row.id = 1, match_row.content = ''Look, here is the deal.'',
        match_row.content_type = ''sales'',
        match_row.topic = None, match_row.similarity = Some (Fin (- 1))\<rparr>,
      \<lparr>match_row.id = 3, match_row.content = ''Look, here is the deal.'',
        match_row.content_type = ''sales'',
        match_row.topic = None, match_row.similarity = Some (Fin 1)\<rparr>,
      \<lparr>match_row.id = 4, match_row.content = ''Look, here is the deal.'',
        match_row.content_type = ''sales'',
        match_row.topic = None, match_row.similarity = None\<rparr>] \<and>
   sorted_wrt similarity_ge [Some (Fin 1), Some (Fin (- 1))] \<and>
   similarity_ge (Some (Fin (- 1))) None"
proof -
  have order: "sorted_wrt similarity_ge [Some (Fin 1), Some (Fin (- 1))]"
    "similarity_ge (Some (Fin (- 1))) None"
    by simp_all
  from match_human_content_contract
    [of 2 sample_table "Some (axis 1)" exact_cosine_distance "''sales''"]
    sample_same_dimension sample_sales sample_exemplars order
  show ?thesis
    by blast
qed









section \<open>Properties of the Orchestrator\<close>

lemma earliest_best_Nil: "earliest_best [] None"
  by (simp add: earliest_best_def)

lemma earliest_best_snoc:
  assumes "earliest_best recs best"
  shows "earliest_best (recs @ [r]) (better best r)"
proof (cases best)
  case None
  with assms show ?thesis
    by (simp add: earliest_best_def better_def)
next
  case (Some b)
  with assms obtain j where j: "j < length recs" "recs ! j = b"
    and top: "\<forall>l < length recs. IterationRecord.quality_score (recs ! l) \<le> IterationRecord.quality_score b"
    and first: "\<forall>l < j. IterationRecord.quality_score (recs ! l) < IterationRecord.quality_score b"
    by (auto simp: earliest_best_def)
  show ?thesis
  proof (cases "IterationRecord.quality_score b < IterationRecord.quality_score r")
    case True
    have "\<forall>l < length recs. IterationRecord.quality_score (recs ! l) < IterationRecord.quality_score r"
      using top True by fastforce
    then have "\<forall>l < length (recs @ [r]). IterationRecord.quality_score ((recs @ [r]) ! l) \<le> IterationRecord.quality_score r"
      "\<forall>l < length recs. IterationRecord.quality_score ((recs @ [r]) ! l) < IterationRecord.quality_score r"
      by (auto simp: nth_append less_Suc_eq)
    then have "\<exists>j < length (recs @ [r]). (recs @ [r]) ! j = r \<and>
        (\<forall>l < length (recs @ [r]). IterationRecord.quality_score ((recs @ [r]) ! l) \<le> IterationRecord.quality_score r) \<and>
        (\<forall>l < j. IterationRecord.quality_score ((recs @ [r]) ! l) < IterationRecord.quality_score r)"
      by (intro exI [of _ "length recs"]) simp
    with True Some show ?thesis
      by (simp add: earliest_best_def better_def)
  next
    case False
    have "\<forall>l < length (recs @ [r]). IterationRecord.quality_score ((recs @ [r]) ! l) \<le> IterationRecord.quality_score b"
      using top False by (auto simp: nth_append less_Suc_eq)
    moreover have "\<forall>l < j. IterationRecord.quality_score ((recs @ [r]) ! l) < IterationRecord.quality_score b"
      using first j(1) by (auto simp: nth_append)
    moreover have "j < length (recs @ [r])" "(recs @ [r]) ! j = b"
      using j by (auto simp: nth_append)
    ultimately have "\<exists>j < length (recs @ [r]). (recs @ [r]) ! j = b \<and>
        (\<forall>l < length (recs @ [r]). IterationRecord.quality_score ((recs @ [r]) ! l) \<le> IterationRecord.quality_score b) \<and>
        (\<forall>l < j. IterationRecord.quality_score ((recs @ [r]) ! l) < IterationRecord.quality_score b)"
      by blast
    with False Some show ?thesis
      by (simp add: earliest_best_def better_def)
  qed
qed

text \<open>What the loop guarantees from a state that satisfies the invariants.\<close>

lemma iterate_exhausted:
  assumes "earliest_best recs best"
    and "\<forall>r \<in> set recs. IterationRecord.quality_score r < quality_threshold cfg"
    and "terminal (iterate c cfg req ex n i recs best failed) = Exhausted"
  shows "earliest_best (records (iterate c cfg req ex n i recs best failed))
           (winner (iterate c cfg req ex n i recs best failed)) \<and>
         (\<forall>r \<in> set (records (iterate c cfg req ex n i recs best failed)).
            IterationRecord.quality_score r < quality_threshold cfg)"
  using assms
proof (induction n arbitrary: i recs best failed)
  case 0
  then show ?case by simp
next
  case (Suc n)
  show ?case
  proof (cases "rewrite c i (input_text req) (HumaniseRequest.mode req) ex (feedback i recs)")
    case (Inl e)
    with Suc show ?thesis
      by (cases e) simp
  next
    case (Inr out)
    obtain q m where qm: "score c i out = (q, m)"
      by (cases "score c i out")
    define r where "r = \<lparr>iteration_index = i, IterationRecord.output_text = out,
      IterationRecord.quality_score = q, IterationRecord.metrics = m\<rparr>"
    show ?thesis
    proof (cases "quality_threshold cfg \<le> q")
      case True
      with Suc.prems(3) Inr qm show ?thesis
        by (simp add: Let_def)
    next
      case False
      then have step: "iterate c cfg req ex (Suc n) i recs best failed =
          iterate c cfg req ex n (Suc i) (recs @ [r]) (better best r) failed"
        using Inr qm by (simp add: r_def Let_def)
      have "earliest_best (recs @ [r]) (better best r)"
        using Suc.prems(1) by (rule earliest_best_snoc)
      moreover have "\<forall>x \<in> set (recs @ [r]). IterationRecord.quality_score x < quality_threshold cfg"
        using Suc.prems(2) False by (auto simp: r_def)
      moreover have "terminal (iterate c cfg req ex n (Suc i) (recs @ [r]) (better best r) failed) = Exhausted"
        using Suc.prems(3) step by simp
      ultimately show ?thesis
        unfolding step by (rule Suc.IH)
    qed
  qed
qed

lemma js_Nil: "js s = [] \<longleftrightarrow> s = []"
  by (simp add: js_def)

lemma length_js: "length (js s) = length s"
  by (simp add: js_def)

lemma rewrite_alt:
  "rewrite c i input m exemplars fb =
     (case generate c i input m exemplars fb of
        None \<Rightarrow> Inl GenerationError
      | Some t \<Rightarrow> if t = [] then Inl GenerationError else Inr t)"
  by (simp add: rewrite_def split: option.splits list.splits)

lemma sample_length: "length (input_text sample_request) = 79"
  by (simp add: sample_request_def length_js)

lemma sample_valid: "20 \<le> length (input_text sample_request)"
  by (simp add: sample_length)

lemma sample_nonempty: "input_text sample_request \<noteq> []"
  using sample_length by auto

lemma sample_tie:
  "orchestrate (sample_collaborators [1 / 2, 7 / 10, 7 / 10]) strict_config sample_request =
     \<lparr>terminal = Exhausted,
      records =
        [\<lparr>iteration_index = 1, IterationRecord.output_text = js ''first draft'',
           IterationRecord.quality_score = 1 / 2, IterationRecord.metrics = sample_metrics\<rparr>,
         \<lparr>iteration_index = 2, IterationRecord.output_text = js ''second draft'',
           IterationRecord.quality_score = 7 / 10, IterationRecord.metrics = sample_metrics\<rparr>,
         \<lparr>iteration_index = 3, IterationRecord.output_text = js ''later draft'',
           IterationRecord.quality_score = 7 / 10, IterationRecord.metrics = sample_metrics\<rparr>],
      winner =
        Some \<lparr>iteration_index = 2, IterationRecord.output_text = js ''second draft'',
           IterationRecord.quality_score = 7 / 10, IterationRecord.metrics = sample_metrics\<rparr>,
      failures = []\<rparr>"
  by (simp add: orchestrate_def strict_config_def sample_collaborators_def sample_request_def
      retrieve_def rewrite_alt feedback_def better_def sample_draft_def eval_nat_numeral js_Nil Let_def)


lemma sample_tie_result:
  "transform (sample_collaborators [1 / 2, 7 / 10, 7 / 10]) strict_config 3421 sample_request =
     Inr \<lparr>HumaniseResponse.output_text = js ''second draft'',
          HumaniseResponse.quality_score = 7 / 10, iterations = 3,
          HumaniseResponse.mode = sales, processing_time_ms = 3421,
          HumaniseResponse.metrics = sample_metrics\<rparr>"
  by (simp add: transform_def sample_tie sample_length)
    (simp add: sample_request_def js_Nil)

lemma sample_tie_exhausted:
  "terminal (orchestrate (sample_collaborators [1 / 2, 7 / 10, 7 / 10]) strict_config
     sample_request) = Exhausted"
  by (simp add: sample_tie)

lemma transform_validation:
  "length (input_text req) < 20 \<Longrightarrow> transform c cfg elapsed req = Inl ValidationError"
  by (simp add: transform_def)

text \<open>
  C4. When the loop ends in \<open>Exhausted\<close> (no iteration reached the threshold and none
  is left) with at least one record, a valid request returns a result, built from the
  record of the highest score among all records, and from the earliest of them when
  several share that score; \<open>iterations\<close> counts all records. For three iterations
  scoring 0.5, 0.7 and 0.7 under the threshold 0.8 the result is the output of
  iteration 2 with \<open>iterations = 3\<close>.
\<close>

theorem exhausted_returns_earliest_best:
  assumes "terminal (orchestrate c cfg req) = Exhausted"
    and "records (orchestrate c cfg req) \<noteq> []"
    and "20 \<le> length (input_text req)"
  shows "(\<forall>r \<in> set (records (orchestrate c cfg req)).
            IterationRecord.quality_score r < quality_threshold cfg) \<and>
         (\<exists>j < length (records (orchestrate c cfg req)).
            transform c cfg elapsed req =
              Inr \<lparr>HumaniseResponse.output_text =
                     IterationRecord.output_text (records (orchestrate c cfg req) ! j),
                   HumaniseResponse.quality_score =
                     IterationRecord.quality_score (records (orchestrate c cfg req) ! j),
                   iterations = length (records (orchestrate c cfg req)),
                   HumaniseResponse.mode = HumaniseRequest.mode req,
                   processing_time_ms = elapsed,
                   HumaniseResponse.metrics =
                     IterationRecord.metrics (records (orchestrate c cfg req) ! j)\<rparr> \<and>
            (\<forall>l < length (records (orchestrate c cfg req)).
               IterationRecord.quality_score (records (orchestrate c cfg req) ! l)
                 \<le> IterationRecord.quality_score (records (orchestrate c cfg req) ! j)) \<and>
            (\<forall>l < j.
               IterationRecord.quality_score (records (orchestrate c cfg req) ! l)
                 < IterationRecord.quality_score (records (orchestrate c cfg req) ! j)))"
proof -
  let ?t = "orchestrate c cfg req"
  have inv: "earliest_best (records ?t) (winner ?t) \<and>
      (\<forall>r \<in> set (records ?t). IterationRecord.quality_score r < quality_threshold cfg)"
    using assms(1) unfolding orchestrate_def
    by (intro iterate_exhausted earliest_best_Nil) simp_all
  with assms(2) obtain w where w: "winner ?t = Some w"
    by (cases "winner ?t") (auto simp: earliest_best_def)
  with inv have "earliest_best (records ?t) (Some w)"
    by simp
  then obtain j where j: "j < length (records ?t)" "records ?t ! j = w"
    "\<forall>l < length (records ?t).
       IterationRecord.quality_score (records ?t ! l) \<le> IterationRecord.quality_score w"
    "\<forall>l < j. IterationRecord.quality_score (records ?t ! l) < IterationRecord.quality_score w"
    by (auto simp: earliest_best_def)
  have "transform c cfg elapsed req =
      Inr \<lparr>HumaniseResponse.output_text = IterationRecord.output_text w,
           HumaniseResponse.quality_score = IterationRecord.quality_score w,
           iterations = length (records ?t),
           HumaniseResponse.mode = HumaniseRequest.mode req,
           processing_time_ms = elapsed,
           HumaniseResponse.metrics = IterationRecord.metrics w\<rparr>"
    using assms(3) w by (auto simp: transform_def)
  with j inv show ?thesis
    by blast
qed

theorem exhausted_returns_earliest_best_witness:
  "transform (sample_collaborators [1 / 2, 7 / 10, 7 / 10]) strict_config 3421 sample_request =
     Inr \<lparr>HumaniseResponse.output_text = js ''second draft'',
          HumaniseResponse.quality_score = 7 / 10, iterations = 3,
          HumaniseResponse.mode = sales, processing_time_ms = 3421,
          HumaniseResponse.metrics = sample_metrics\<rparr> \<and>
   map IterationRecord.quality_score
     (records (orchestrate (sample_collaborators [1 / 2, 7 / 10, 7 / 10]) strict_config
        sample_request)) = [1 / 2, 7 / 10, 7 / 10] \<and>
   map IterationRecord.output_text
     (records (orchestrate (sample_collaborators [1 / 2, 7 / 10, 7 / 10]) strict_config
        sample_request)) = [js ''first draft'', js ''second draft'', js ''later draft''] \<and>
   quality_threshold strict_config = 4 / 5"
proof -
  have scores: "map IterationRecord.quality_score
     (records (orchestrate (sample_collaborators [1 / 2, 7 / 10, 7 / 10]) strict_config
        sample_request)) = [1 / 2, 7 / 10, 7 / 10]"
    by (simp add: sample_tie)
  have drafts: "map IterationRecord.output_text
     (records (orchestrate (sample_collaborators [1 / 2, 7 / 10, 7 / 10]) strict_config
        sample_request)) = [js ''first draft'', js ''second draft'', js ''later draft'']"
    by (simp add: sample_tie)
  have threshold: "quality_threshold strict_config = 4 / 5"
    by (simp add: strict_config_def)
  have some: "records (orchestrate (sample_collaborators [1 / 2, 7 / 10, 7 / 10]) strict_config
        sample_request) \<noteq> []"
    by (simp add: sample_tie)
  from exhausted_returns_earliest_best [OF sample_tie_exhausted some sample_valid, of 3421]
    sample_tie_result scores drafts threshold
  show ?thesis
    by blast
qed

lemma winner_kept:
  "best \<noteq> None \<Longrightarrow> winner (iterate c cfg req ex n i recs best failed) \<noteq> None"
proof (induction n arbitrary: i recs best failed)
  case 0
  then show ?case by simp
next
  case (Suc n)
  have "better best r \<noteq> None" for r
    by (simp add: better_def split: option.splits)
  with Suc show ?case
    by (auto simp: Let_def split: sum.splits generation_error.splits prod.splits)
qed

lemma feedback_Nil: "feedback i [] = None"
  by (simp add: feedback_def)

lemma no_winner_iff:
  "winner (iterate c cfg req ex n i [] None failed) = None \<longleftrightarrow>
     (\<forall>j. i \<le> j \<and> j < i + n \<longrightarrow>
        rewrite c j (input_text req) (HumaniseRequest.mode req) ex None = Inl GenerationError)"
proof (induction n arbitrary: i failed)
  case 0
  then show ?case by auto
next
  case (Suc n)
  show ?case
  proof (cases "rewrite c i (input_text req) (HumaniseRequest.mode req) ex None")
    case (Inl e)
    then have here: "rewrite c i (input_text req) (HumaniseRequest.mode req) ex None = Inl GenerationError"
      by (cases e) simp
    have later: "rewrite c j (input_text req) (HumaniseRequest.mode req) ex None = Inl GenerationError"
      if "i \<le> j" "j < i + Suc n"
        and rest: "\<forall>j. Suc i \<le> j \<and> j < Suc i + n \<longrightarrow>
          rewrite c j (input_text req) (HumaniseRequest.mode req) ex None = Inl GenerationError"
      for j
    proof (cases "j = i")
      case True
      with here show ?thesis by simp
    next
      case False
      with that(1,2) have "Suc i \<le> j \<and> j < Suc i + n"
        by simp
      with rest show ?thesis by blast
    qed
    have "(\<forall>j. i \<le> j \<and> j < i + Suc n \<longrightarrow>
             rewrite c j (input_text req) (HumaniseRequest.mode req) ex None = Inl GenerationError) \<longleftrightarrow>
          (\<forall>j. Suc i \<le> j \<and> j < Suc i + n \<longrightarrow>
             rewrite c j (input_text req) (HumaniseRequest.mode req) ex None = Inl GenerationError)"
      using later by auto
    with Suc [of "Suc i"] here show ?thesis
      by (simp add: feedback_Nil)
  next
    case (Inr out)
    obtain q m where qm: "score c i out = (q, m)"
      by (cases "score c i out")
    have "winner (iterate c cfg req ex (Suc n) i [] None failed) \<noteq> None"
      using Inr qm winner_kept [of "better None _" c cfg req ex n "Suc i"]
      by (auto simp: feedback_Nil Let_def better_def)
    moreover have "\<not> (\<forall>j. i \<le> j \<and> j < i + Suc n \<longrightarrow>
        rewrite c j (input_text req) (HumaniseRequest.mode req) ex None = Inl GenerationError)"
      using Inr by (auto intro!: exI [of _ i])
    ultimately show ?thesis
      by blast
  qed
qed

lemma rewrite_search: "rewrite (c\<lparr>search := s\<rparr>) = rewrite c"
  by (intro ext) (simp add: rewrite_def)

lemma iterate_search:
  "iterate (c\<lparr>search := s\<rparr>) cfg req ex n i recs best failed = iterate c cfg req ex n i recs best failed"
  by (induction n arbitrary: i recs best failed)
    (auto simp: rewrite_search Let_def split: sum.splits generation_error.splits prod.splits)

lemma retrieve_fallback:
  assumes "search c m h k = None \<or> search c m h k = Some []"
  shows "retrieve c m h k = fst (curated c m) # snd (curated c m)"
  using assms by (auto simp: retrieve_def)

lemma sample_search_fails:
  "\<forall>m h k. search (sample_collaborators scores) m h k = None \<or>
     search (sample_collaborators scores) m h k = Some []"
  by (simp add: sample_collaborators_def)

lemma silent_search_fails:
  "\<forall>m h k. search silent_collaborators m h k = None \<or>
     search silent_collaborators m h k = Some []"
  by (simp add: silent_collaborators_def)

lemma sample_accept_trace:
  "orchestrate (sample_collaborators [1 / 2, 9 / 10]) default_config sample_request =
     \<lparr>terminal = Accepted,
      records =
        [\<lparr>iteration_index = 1, IterationRecord.output_text = js ''first draft'',
           IterationRecord.quality_score = 1 / 2, IterationRecord.metrics = sample_metrics\<rparr>,
         \<lparr>iteration_index = 2, IterationRecord.output_text = js ''second draft'',
           IterationRecord.quality_score = 9 / 10, IterationRecord.metrics = sample_metrics\<rparr>],
      winner =
        Some \<lparr>iteration_index = 2, IterationRecord.output_text = js ''second draft'',
           IterationRecord.quality_score = 9 / 10, IterationRecord.metrics = sample_metrics\<rparr>,
      failures = []\<rparr>"
  by (simp add: orchestrate_def default_config_def sample_collaborators_def sample_request_def
      retrieve_def rewrite_alt feedback_def better_def sample_draft_def eval_nat_numeral js_Nil Let_def)

lemma sample_accept:
  "transform (sample_collaborators [1 / 2, 9 / 10]) default_config 3421 sample_request =
     Inr \<lparr>HumaniseResponse.output_text = js ''second draft'',
          HumaniseResponse.quality_score = 9 / 10, iterations = 2,
          HumaniseResponse.mode = sales, processing_time_ms = 3421,
          HumaniseResponse.metrics = sample_metrics\<rparr>"
  by (simp add: transform_def sample_accept_trace sample_length sample_nonempty)
    (simp add: sample_request_def)

lemma silent_trace:
  "orchestrate silent_collaborators default_config sample_request =
     \<lparr>terminal = Exhausted, records = [], winner = None, failures = [1, 2, 3]\<rparr>"
  by (simp add: orchestrate_def default_config_def silent_collaborators_def
      retrieve_def rewrite_alt feedback_def eval_nat_numeral)

lemma silent_fails:
  "transform silent_collaborators default_config 3421 sample_request = Inl PipelineError"
  by (simp add: transform_def silent_trace sample_length sample_nonempty)

text \<open>
  C6. When the retrieval provider fails or returns no row on every call,
  \<open>retrieve\<close> returns the built-in set of the mode, which has at least one exemplar,
  and the pipeline runs as it would with a provider that returned that set: a valid
  request is never a ValidationError, and it is a PipelineError only when every
  permitted iteration ends in a GenerationError.
\<close>

theorem retrieval_failure_absorbed:
  assumes "\<forall>m h k. search c m h k = None \<or> search c m h k = Some []"
    and "20 \<le> length (input_text req)"
  shows "retrieve c m h k = fst (curated c m) # snd (curated c m) \<and>
         1 \<le> length (retrieve c m h k) \<and>
         transform c cfg elapsed req \<noteq> Inl ValidationError \<and>
         (transform c cfg elapsed req = Inl PipelineError \<longleftrightarrow>
            (\<forall>i. 1 \<le> i \<and> i \<le> max_iterations cfg \<longrightarrow>
               rewrite c i (input_text req) (HumaniseRequest.mode req)
                 (fst (curated c (HumaniseRequest.mode req)) #
                  snd (curated c (HumaniseRequest.mode req))) None = Inl GenerationError)) \<and>
         transform c cfg elapsed req =
           transform (c\<lparr>search := \<lambda>m h k. Some (fst (curated c m) # snd (curated c m))\<rparr>)
             cfg elapsed req"
proof -
  let ?c = "c\<lparr>search := \<lambda>m h k. Some (fst (curated c m) # snd (curated c m))\<rparr>"
  let ?ex = "fst (curated c (HumaniseRequest.mode req)) # snd (curated c (HumaniseRequest.mode req))"
  have fallback: "retrieve c m h k = fst (curated c m) # snd (curated c m)" for m h k
    using assms(1) by (intro retrieve_fallback) simp
  have run: "orchestrate c cfg req = iterate c cfg req ?ex (max_iterations cfg) 1 [] None []"
    by (simp add: orchestrate_def fallback)
  have "retrieve ?c m h k = fst (curated c m) # snd (curated c m)" for m h k
    by (simp add: retrieve_def)
  then have "orchestrate ?c cfg req = orchestrate c cfg req"
    by (simp add: orchestrate_def fallback iterate_search)
  then have same: "transform c cfg elapsed req = transform ?c cfg elapsed req"
    by (simp add: transform_def cong: option.case_cong)
  have valid: "\<not> (input_text req = [] \<or> length (input_text req) < 20)"
    using assms(2) by auto
  have "transform c cfg elapsed req = Inl PipelineError \<longleftrightarrow>
      winner (orchestrate c cfg req) = None"
    using valid by (auto simp: transform_def split: option.splits)
  also have "\<dots> \<longleftrightarrow> (\<forall>j. 1 \<le> j \<and> j < 1 + max_iterations cfg \<longrightarrow>
      rewrite c j (input_text req) (HumaniseRequest.mode req) ?ex None = Inl GenerationError)"
    unfolding run by (rule no_winner_iff)
  also have "\<dots> \<longleftrightarrow> (\<forall>i. 1 \<le> i \<and> i \<le> max_iterations cfg \<longrightarrow>
      rewrite c i (input_text req) (HumaniseRequest.mode req) ?ex None = Inl GenerationError)"
    by (simp add: less_Suc_eq_le)
  finally have error: "transform c cfg elapsed req = Inl PipelineError \<longleftrightarrow>
      (\<forall>i. 1 \<le> i \<and> i \<le> max_iterations cfg \<longrightarrow>
        rewrite c i (input_text req) (HumaniseRequest.mode req) ?ex None = Inl GenerationError)" .
  have "transform c cfg elapsed req \<noteq> Inl ValidationError"
    using valid by (auto simp: transform_def split: option.splits)
  with fallback [of m h k] error same show ?thesis
    by simp
qed

theorem retrieval_failure_absorbed_witness:
  "retrieve (sample_collaborators [1 / 2, 9 / 10]) sales
     (input_text sample_request) 5 = [sample_exemplar sales] \<and>
   transform (sample_collaborators [1 / 2, 9 / 10]) default_config 3421 sample_request =
     Inr \<lparr>HumaniseResponse.output_text = js ''second draft'',
          HumaniseResponse.quality_score = 9 / 10, iterations = 2,
          HumaniseResponse.mode = sales, processing_time_ms = 3421,
          HumaniseResponse.metrics = sample_metrics\<rparr> \<and>
   retrieve silent_collaborators journalist [] 0 = [sample_exemplar journalist] \<and>
   transform silent_collaborators default_config 3421 sample_request = Inl PipelineError"
proof -
  have "retrieve (sample_collaborators [1 / 2, 9 / 10]) sales (input_text sample_request) 5 =
      [sample_exemplar sales]"
    using retrieval_failure_absorbed [OF sample_search_fails sample_valid,
        of "[1 / 2, 9 / 10]" sales "input_text sample_request" 5]
    by (simp add: sample_collaborators_def)
  moreover have "retrieve silent_collaborators journalist [] 0 = [sample_exemplar journalist]"
    using retrieval_failure_absorbed [OF silent_search_fails sample_valid, of journalist "[]" 0]
    by (simp add: silent_collaborators_def)
  ultimately show ?thesis
    using sample_accept silent_fails by blast
qed

section \<open>Properties of the response shape\<close>

text \<open>
  C7. The encoded result carries exactly the fields \<open>output_text\<close>,
  \<open>quality_score\<close>, \<open>iterations\<close>, \<open>mode\<close>, \<open>processing_time_ms\<close> and
  \<open>metrics\<close>, each once, and \<open>metrics\<close> is an object with exactly the fields
  \<open>burstiness\<close>, \<open>lexical_diversity\<close>, \<open>contraction_ratio\<close>, \<open>word_count\<close> and
  \<open>sentence_count\<close>. These are the names the components read: every property that
  \<^verbatim>\<open>OutputDisplay\<close>, the page and \<^verbatim>\<open>MetricsDisplay\<close> read is a field of the object
  they read it from, and every field is read.
\<close>

theorem response_shape:
  "field_names (encode_result r) =
     [''output_text'', ''quality_score'', ''iterations'', ''mode'', ''processing_time_ms'',
      ''metrics''] \<and>
   distinct (field_names (encode_result r)) \<and>
   field (encode_result r) ''metrics'' = Some (encode_metrics (HumaniseResponse.metrics r)) \<and>
   field_names (encode_metrics (HumaniseResponse.metrics r)) =
     [''burstiness'', ''lexical_diversity'', ''contraction_ratio'', ''word_count'',
      ''sentence_count''] \<and>
   distinct (field_names (encode_metrics (HumaniseResponse.metrics r))) \<and>
   set (OutputDisplay_reads @ Home_reads) = set (field_names (encode_result r)) \<and>
   set MetricsDisplay_reads = set (field_names (encode_metrics (HumaniseResponse.metrics r))) \<and>
   map (field (encode_result r)) OutputDisplay_reads =
     [Some (JString (HumaniseResponse.output_text r)),
      Some (JNumber (HumaniseResponse.quality_score r)),
      Some (JNumber (real (iterations r))),
      Some (JNumber (real (processing_time_ms r))),
      Some (encode_mode (HumaniseResponse.mode r))]"
  by (simp add: encode_result_def encode_metrics_def OutputDisplay_reads_def Home_reads_def
      MetricsDisplay_reads_def insert_commute)

end
